theory Spec2Isabelle
  imports Complex_Main
begin

section \<open>JavaScript strings and numbers as used by the tools\<close>

text \<open>
  A query text is a \<^typ>\<open>string\<close>: a list of code units, each a \<^typ>\<open>char\<close> read as the
  code point of the same number (U+0000 to U+00FF). On that range \<^verbatim>\<open>String.prototype.trim\<close>
  strips TAB, LF, VT, FF, CR, SPACE and NO-BREAK SPACE from both ends, and
  \<^verbatim>\<open>String.prototype.toLowerCase\<close> maps A-Z and the capital letters U+00C0 to U+00DE
  (U+00D7, the multiplication sign, apart) to the letter 32 code points above.
\<close>

definition isWhiteSpace :: "char \<Rightarrow> bool" where
  "isWhiteSpace c = ((of_char c :: nat) \<in> {9, 10, 11, 12, 13, 32, 160})"

definition trim :: "string \<Rightarrow> string" where
  "trim s = rev (dropWhile isWhiteSpace (rev (dropWhile isWhiteSpace s)))"

definition toLowerCase_unit :: "char \<Rightarrow> char" where
  "toLowerCase_unit c =
     (let n = (of_char c :: nat)
      in if (65 \<le> n \<and> n \<le> 90) \<or> (192 \<le> n \<and> n \<le> 222 \<and> n \<noteq> 215)
         then char_of (n + 32) else c)"

definition toLowerCase :: "string \<Rightarrow> string" where
  "toLowerCase s = map toLowerCase_unit s"

definition startsWith :: "string \<Rightarrow> string \<Rightarrow> bool" where
  "startsWith s p = (take (length p) s = p)"

fun includesString :: "string \<Rightarrow> string \<Rightarrow> bool" where
  "includesString [] p = (p = [])"
| "includesString (c # cs) p = (startsWith (c # cs) p \<or> includesString cs p)"

text \<open>
  A limit is an integer-valued JavaScript number in the range where such numbers are
  exact (magnitude below \<open>2\<^sup>5\<^sup>3\<close>), modelled as \<^typ>\<open>int\<close>. A template literal
  writes such a number in decimal, with a minus sign when it is negative.
\<close>

function digits :: "nat \<Rightarrow> string" where
  "digits n = (if n < 10 then [char_of (48 + n)] else digits (n div 10) @ [char_of (48 + n mod 10)])"
  by pat_completeness auto
termination
  by (relation "measure id") auto

declare digits.simps [simp del]

definition number_toString :: "int \<Rightarrow> string" where
  "number_toString n = (if n < 0 then CHR ''-'' # digits (nat (- n)) else digits (nat n))"

section \<open>Values, thrown values and JSON.stringify\<close>

text \<open>
  The values a row can hold and a capability can throw. A finite number is kept as its
  value; \<open>Non_finite\<close> stands for NaN and the two infinities. An object is the list of
  its own enumerable properties in their order. \<open>json\<close> is what a JSON text denotes.
\<close>

datatype js_value =
    Undefined
  | Null
  | Boolean bool
  | Finite rat
  | Non_finite
  | Str string
  | BigInt int
  | ArrayBuffer
  | Arr "js_value list"
  | Obj "(string \<times> js_value) list"

datatype json =
    JNull
  | JBool bool
  | JNum rat
  | JStr string
  | JArr "json list"
  | JObj "(string \<times> json) list"

text \<open>
  A value that is thrown is either an instance of \<^verbatim>\<open>Error\<close>, which carries a message, or
  any other value. The tools tell the two apart with \<^verbatim>\<open>error instanceof Error\<close>.
\<close>

datatype thrown = Error_instance string | Non_Error js_value

text \<open>
  \<^verbatim>\<open>JSON.stringify\<close> on a value: \<open>None\<close> is \<^verbatim>\<open>undefined\<close> (nothing is written). A
  BigInt makes it throw a TypeError, with the message of V8, the engine of the runtime.
  A non-finite number is written as \<^verbatim>\<open>null\<close>, an ArrayBuffer as the empty object; an
  undefined array element is written as \<^verbatim>\<open>null\<close>, an undefined property is left out.
  The first element or property that throws ends the whole call.
\<close>

fun collect_elements :: "(thrown + json option) list \<Rightarrow> thrown + json list" where
  "collect_elements [] = Inr []"
| "collect_elements (r # rs) =
     (case r of
        Inl e \<Rightarrow> Inl e
      | Inr j \<Rightarrow>
          (case collect_elements rs of
             Inl e \<Rightarrow> Inl e
           | Inr js \<Rightarrow> Inr ((case j of None \<Rightarrow> JNull | Some v \<Rightarrow> v) # js)))"

fun collect_properties :: "(string \<times> (thrown + json option)) list \<Rightarrow> thrown + (string \<times> json) list" where
  "collect_properties [] = Inr []"
| "collect_properties ((k, r) # rs) =
     (case r of
        Inl e \<Rightarrow> Inl e
      | Inr j \<Rightarrow>
          (case collect_properties rs of
             Inl e \<Rightarrow> Inl e
           | Inr ps \<Rightarrow> Inr (case j of None \<Rightarrow> ps | Some v \<Rightarrow> (k, v) # ps)))"

fun serialize :: "js_value \<Rightarrow> thrown + json option" where
  "serialize Undefined = Inr None"
| "serialize Null = Inr (Some JNull)"
| "serialize (Boolean b) = Inr (Some (JBool b))"
| "serialize (Finite x) = Inr (Some (JNum x))"
| "serialize Non_finite = Inr (Some JNull)"
| "serialize (Str s) = Inr (Some (JStr s))"
| "serialize (BigInt n) = Inl (Error_instance ''Do not know how to serialize a BigInt'')"
| "serialize ArrayBuffer = Inr (Some (JObj []))"
| "serialize (Arr vs) =
     (case collect_elements (map serialize vs) of
        Inl e \<Rightarrow> Inl e
      | Inr js \<Rightarrow> Inr (Some (JArr js)))"
| "serialize (Obj ps) =
     (case collect_properties (map (map_prod id serialize) ps) of
        Inl e \<Rightarrow> Inl e
      | Inr qs \<Rightarrow> Inr (Some (JObj qs)))"


section \<open>Tool results and the storage capability\<close>

text \<open>
  A tool returns either a plain string or \<^verbatim>\<open>JSON.stringify(obj, null, 2)\<close> of an object
  literal. The second is kept as the properties of the literal in the order they are
  written, each a number, a string or an array of what is written for its elements; the
  layout of the text is left out.
\<close>

datatype 'a property = Number nat | String string | Array "'a list"

datatype 'a tool_result = Text string | Stringified "(string \<times> 'a property) list"

text \<open>
  The storage capability \<^verbatim>\<open>storage.exec(text).toArray()\<close> belongs to the agent runtime.
  It is a parameter of the model: given the text it either throws or yields the rows in
  order. The tools reach it through \<^verbatim>\<open>getCurrentAgent\<close>, whose agent they take to be
  there (\<^verbatim>\<open>agent!\<close>); so does the model. Writing to the console is left out.

  A run of a piece of code is what it completes with (\<open>Inl\<close>: a thrown value leaves
  it, \<open>Inr\<close>: it returns) together with the texts it handed to the capability, in the
  order of the calls.
\<close>

type_synonym 'row sql_exec = "string \<Rightarrow> thrown + 'row list"

record 'a run =
  completion :: "thrown + 'a"
  exec_calls :: "string list"

definition return_run :: "'a \<Rightarrow> 'a run" where
  "return_run v = \<lparr>completion = Inr v, exec_calls = []\<rparr>"

definition exec_toArray :: "'row sql_exec \<Rightarrow> string \<Rightarrow> ('row list) run" where
  "exec_toArray storage text = \<lparr>completion = storage text, exec_calls = [text]\<rparr>"

definition bind_run :: "'a run \<Rightarrow> ('a \<Rightarrow> 'b run) \<Rightarrow> 'b run" where
  "bind_run m f =
     (case completion m of
        Inl e \<Rightarrow> \<lparr>completion = Inl e, exec_calls = exec_calls m\<rparr>
      | Inr v \<Rightarrow> (let r = f v
                 in \<lparr>completion = completion r, exec_calls = exec_calls m @ exec_calls r\<rparr>))"

definition try_catch :: "'a run \<Rightarrow> (thrown \<Rightarrow> 'a run) \<Rightarrow> 'a run" where
  "try_catch body handler =
     (case completion body of
        Inr v \<Rightarrow> body
      | Inl e \<Rightarrow> (let h = handler e
                 in \<lparr>completion = completion h, exec_calls = exec_calls body @ exec_calls h\<rparr>))"

definition error_message :: "thrown \<Rightarrow> string" where
  "error_message error = (case error of Error_instance message \<Rightarrow> message | Non_Error v \<Rightarrow> ''Unknown error'')"

text \<open>
  \<^verbatim>\<open>JSON.stringify\<close> reaches the rows as the elements of the array \<^verbatim>\<open>rows\<close> of the
  object literal; the other properties of the literal are a count and strings.
\<close>

definition stringify_rows :: "js_value list \<Rightarrow> (json list) run" where
  "stringify_rows rows = \<lparr>completion = collect_elements (map serialize rows), exec_calls = []\<rparr>"

section \<open>The tool executeSQLQuery\<close>

text \<open>
  \<^verbatim>\<open>limit: z.number().optional().default(100)\<close>: the input schema fills in 100 when the
  caller gives no limit, so the execute function always receives a number.
\<close>

definition inputSchema_limit :: "int option \<Rightarrow> int" where
  "inputSchema_limit limit = (case limit of None \<Rightarrow> 100 | Some n \<Rightarrow> n)"

text \<open>\<^verbatim>\<open>Math.min(limit || 100, 500)\<close>: of the integers only 0 is falsy.\<close>

definition safeLimit :: "int \<Rightarrow> int" where
  "safeLimit limit = min (if limit = 0 then 100 else limit) 500"

definition normalizedQuery :: "string \<Rightarrow> string" where
  "normalizedQuery query = toLowerCase (trim query)"

definition limitedQuery :: "string \<Rightarrow> int \<Rightarrow> string" where
  "limitedQuery query limit =
     (if includesString (normalizedQuery query) ''limit''
      then query
      else query @ '' LIMIT '' @ number_toString (safeLimit limit))"

definition executeSQLQuery_try :: "js_value sql_exec \<Rightarrow> string \<Rightarrow> int \<Rightarrow> json tool_result run" where
  "executeSQLQuery_try storage query limit =
     (if \<not> startsWith (normalizedQuery query) ''select''
      then return_run (Text ''Error: Only SELECT queries are allowed for security reasons. Please start your query with SELECT.'')
      else bind_run (exec_toArray storage (limitedQuery query limit)) (\<lambda>rows.
             if rows = []
             then return_run (Stringified
                    [(''rowCount'', Number 0),
                     (''rows'', Array []),
                     (''query'', String (limitedQuery query limit)),
                     (''message'', String ''Query executed successfully. No results returned.'')])
             else bind_run (stringify_rows rows) (\<lambda>written.
                    return_run (Stringified
                      [(''rowCount'', Number (length rows)),
                       (''rows'', Array written),
                       (''query'', String (limitedQuery query limit))]))))"

definition executeSQLQuery_catch :: "thrown \<Rightarrow> json tool_result run" where
  "executeSQLQuery_catch error = return_run (Text (''SQL Error: '' @ error_message error))"

definition executeSQLQuery_execute :: "js_value sql_exec \<Rightarrow> string \<Rightarrow> int \<Rightarrow> json tool_result run" where
  "executeSQLQuery_execute storage query limit =
     try_catch (executeSQLQuery_try storage query limit) executeSQLQuery_catch"

definition executeSQLQuery :: "js_value sql_exec \<Rightarrow> string \<Rightarrow> int option \<Rightarrow> json tool_result run" where
  "executeSQLQuery storage query limit = executeSQLQuery_execute storage query (inputSchema_limit limit)"

section \<open>The tool getDatabaseSchema\<close>

text \<open>
  Here a row is a row of \<^verbatim>\<open>sqlite_master\<close>, read by property name; a property it does
  not have reads as \<^verbatim>\<open>undefined\<close>, here \<open>None\<close>.
\<close>

type_synonym 'v row = "string \<Rightarrow> 'v option"

record 'v schemaInfo =
  table :: "'v option"
  createStatement :: "'v option"

definition schema_query :: string where
  "schema_query = ''SELECT name, sql FROM sqlite_master WHERE type='table' ORDER BY name''"

definition getDatabaseSchema_try :: "('v row) sql_exec \<Rightarrow> ('v schemaInfo) tool_result run" where
  "getDatabaseSchema_try storage =
     bind_run (exec_toArray storage schema_query) (\<lambda>tables.
       if tables = []
       then return_run (Text ''No tables found in database.'')
       else return_run (Stringified
              [(''database'', String ''SQLite (Cloudflare Durable Object)''),
               (''tableCount'', Number (length tables)),
               (''tables'', Array (map (\<lambda>table. \<lparr>table = table ''name'', createStatement = table ''sql''\<rparr>) tables))]))"

definition getDatabaseSchema_catch :: "thrown \<Rightarrow> ('v schemaInfo) tool_result run" where
  "getDatabaseSchema_catch error = return_run (Text (''Error getting schema: '' @ error_message error))"

definition getDatabaseSchema :: "('v row) sql_exec \<Rightarrow> ('v schemaInfo) tool_result run" where
  "getDatabaseSchema storage = try_catch (getDatabaseSchema_try storage) getDatabaseSchema_catch"

text \<open>Two rows of \<^verbatim>\<open>sqlite_master\<close>, for the examples.\<close>

definition contacts_row :: "string row" where
  "contacts_row = [''name'' \<mapsto> ''contacts'', ''sql'' \<mapsto> ''CREATE TABLE contacts (id INTEGER)'']"

definition notes_row :: "string row" where
  "notes_row = [''name'' \<mapsto> ''notes'', ''sql'' \<mapsto> ''CREATE TABLE notes (body TEXT)'']"

section \<open>Facts about the string operations\<close>

lemma startsWith_iff: "startsWith s p \<longleftrightarrow> (\<exists>b. s = p @ b)"
  unfolding startsWith_def by (metis append_eq_conv_conj append_take_drop_id)

lemma includesString_iff: "includesString s p \<longleftrightarrow> (\<exists>a b. s = a @ p @ b)"
proof (induction s)
  case Nil
  then show ?case by auto
next
  case (Cons c cs)
  have "(\<exists>a b. c # cs = a @ p @ b) \<longleftrightarrow> (\<exists>b. c # cs = p @ b) \<or> (\<exists>a b. cs = a @ p @ b)"
    (is "?L \<longleftrightarrow> ?R")
  proof
    assume ?L
    then obtain a b where ab: "c # cs = a @ p @ b" by blast
    show ?R
    proof (cases a)
      case Nil
      with ab show ?thesis by auto
    next
      case (Cons x xs)
      with ab have "cs = xs @ p @ b" by simp
      then show ?thesis by blast
    qed
  next
    assume ?R
    then show ?L
    proof
      assume "\<exists>b. c # cs = p @ b"
      then obtain b where "c # cs = [] @ p @ b" by auto
      then show ?L by blast
    next
      assume "\<exists>a b. cs = a @ p @ b"
      then obtain a b where "c # cs = (c # a) @ p @ b" by auto
      then show ?L by blast
    qed
  qed
  then show ?case using Cons.IH by (simp add: startsWith_iff)
qed

lemma trim_no_outer_whitespace:
  "trim s = [] \<or> (\<not> isWhiteSpace (hd (trim s)) \<and> \<not> isWhiteSpace (last (trim s)))"
proof (cases "trim s = []")
  case True
  then show ?thesis by simp
next
  case False
  let ?t = "dropWhile isWhiteSpace s"
  let ?u = "dropWhile isWhiteSpace (rev ?t)"
  have u: "?u \<noteq> []" using False by (simp add: trim_def)
  then have "\<not> isWhiteSpace (hd ?u)" by (rule hd_dropWhile)
  then have l: "\<not> isWhiteSpace (last (trim s))" using u by (simp add: trim_def last_rev)
  have t: "?t \<noteq> []"
  proof
    assume e: "?t = []"
    have "?u = []" unfolding e by simp
    with u show False by simp
  qed
  then have ht: "\<not> isWhiteSpace (hd ?t)" by (rule hd_dropWhile)
  obtain ws where ws: "rev ?t = ws @ ?u" by (metis takeWhile_dropWhile_id)
  then have "?t = rev ?u @ rev ws" by (metis rev_append rev_rev_ident)
  then have "hd ?t = hd (rev ?u)" using u by (metis hd_append2 rev_is_Nil_conv)
  with ht have "\<not> isWhiteSpace (hd (trim s))" by (simp add: trim_def)
  with l show ?thesis by simp
qed

lemma trim_sublist: "\<exists>a b. s = a @ trim s @ b \<and> (\<forall>c \<in> set a \<union> set b. isWhiteSpace c)"
proof -
  let ?a = "takeWhile isWhiteSpace s"
  let ?t = "dropWhile isWhiteSpace s"
  let ?b = "takeWhile isWhiteSpace (rev ?t)"
  let ?u = "dropWhile isWhiteSpace (rev ?t)"
  have "rev ?t = ?b @ ?u" by simp
  then have "?t = rev ?u @ rev ?b" by (metis rev_append rev_rev_ident)
  then have "s = ?a @ trim s @ rev ?b" by (metis takeWhile_dropWhile_id trim_def)
  moreover have "\<forall>c \<in> set ?a \<union> set (rev ?b). isWhiteSpace c"
    by (auto dest: set_takeWhileD)
  ultimately show ?thesis by blast
qed

lemma length_toLowerCase: "length (toLowerCase s) = length s"
  by (simp add: toLowerCase_def)

section \<open>Facts about JSON.stringify\<close>





section \<open>The two branches of executeSQLQuery\<close>

lemma executeSQLQuery_execute_rejected:
  "\<not> startsWith (normalizedQuery query) ''select'' \<Longrightarrow>
   executeSQLQuery_execute storage query limit =
     \<lparr>completion = Inr (Text ''Error: Only SELECT queries are allowed for security reasons. Please start your query with SELECT.''),
      exec_calls = []\<rparr>"
  by (simp add: executeSQLQuery_execute_def executeSQLQuery_try_def try_catch_def return_run_def)

lemma executeSQLQuery_execute_accepted:
  "startsWith (normalizedQuery query) ''select'' \<Longrightarrow>
   executeSQLQuery_execute storage query limit =
     (case storage (limitedQuery query limit) of
        Inl error \<Rightarrow>
          \<lparr>completion = Inr (Text (''SQL Error: '' @ error_message error)),
           exec_calls = [limitedQuery query limit]\<rparr>
      | Inr rows \<Rightarrow>
          \<lparr>completion = Inr (if rows = []
             then Stringified
                    [(''rowCount'', Number 0),
                     (''rows'', Array []),
                     (''query'', String (limitedQuery query limit)),
                     (''message'', String ''Query executed successfully. No results returned.'')]
             else (case completion (stringify_rows rows) of
                     Inl error \<Rightarrow> Text (''SQL Error: '' @ error_message error)
                   | Inr written \<Rightarrow> Stringified
                       [(''rowCount'', Number (length rows)),
                        (''rows'', Array written),
                        (''query'', String (limitedQuery query limit))])),
           exec_calls = [limitedQuery query limit]\<rparr>)"
  by (simp add: executeSQLQuery_execute_def executeSQLQuery_try_def executeSQLQuery_catch_def
      try_catch_def bind_run_def exec_toArray_def return_run_def stringify_rows_def
      split: sum.splits)

lemma executeSQLQuery_execute_calls:
  "startsWith (normalizedQuery query) ''select'' \<Longrightarrow>
   exec_calls (executeSQLQuery_execute storage query limit) = [limitedQuery query limit]"
  by (simp add: executeSQLQuery_execute_accepted split: sum.splits)

lemma executeSQLQuery_execute_returns:
  "\<exists>r. completion (executeSQLQuery_execute storage query limit) = Inr r"
  by (cases "startsWith (normalizedQuery query) ''select''")
     (simp_all add: executeSQLQuery_execute_accepted executeSQLQuery_execute_rejected split: sum.splits)

lemma number_toString_100: "number_toString 100 = ''100''"
  by code_simp

lemma safeLimit_default: "safeLimit (inputSchema_limit None) = 100"
  by (simp add: safeLimit_def inputSchema_limit_def)

section \<open>Claims about executeSQLQuery\<close>

text \<open>
  C1. Whenever the trimmed, lowercased query text does not start with \<open>select\<close>,
  executeSQLQuery returns the message that only SELECT queries are allowed, and the
  storage capability is not called at all.
\<close>

theorem rejects_non_select:
  "\<not> startsWith (normalizedQuery query) ''select'' \<Longrightarrow>
   executeSQLQuery storage query limit =
     \<lparr>completion = Inr (Text ''Error: Only SELECT queries are allowed for security reasons. Please start your query with SELECT.''),
      exec_calls = []\<rparr>"
  by (simp add: executeSQLQuery_def executeSQLQuery_execute_rejected)

theorem rejects_non_select_witness:
  "\<not> startsWith (normalizedQuery ''DROP TABLE contacts'') ''select'' \<and>
   executeSQLQuery (\<lambda>text. Inr [Str text]) ''DROP TABLE contacts'' None =
     \<lparr>completion = Inr (Text ''Error: Only SELECT queries are allowed for security reasons. Please start your query with SELECT.''),
      exec_calls = []\<rparr>"
proof -
  have h: "\<not> startsWith (normalizedQuery ''DROP TABLE contacts'') ''select''"
    by code_simp
  from h rejects_non_select [OF h] show ?thesis by simp
qed

text \<open>
  C2, as the code has it. For an explicitly given limit \<open>L\<close> that is not negative, the
  effective limit is \<open>min L 500\<close> when \<open>L\<close> is positive and 100 when \<open>L\<close> is 0, and
  it lies between 0 and 500. It is the number written after \<open>LIMIT\<close> when the accepted
  query text has no \<open>limit\<close> in it.
\<close>

theorem effective_limit:
  "0 \<le> L \<Longrightarrow>
   safeLimit (inputSchema_limit (Some L)) = (if L = 0 then 100 else min L 500) \<and>
   0 \<le> safeLimit (inputSchema_limit (Some L)) \<and>
   safeLimit (inputSchema_limit (Some L)) \<le> 500 \<and>
   (startsWith (normalizedQuery query) ''select'' \<longrightarrow>
    \<not> includesString (normalizedQuery query) ''limit'' \<longrightarrow>
    exec_calls (executeSQLQuery storage query (Some L)) =
      [query @ '' LIMIT '' @ number_toString (safeLimit (inputSchema_limit (Some L)))])"
  by (simp add: safeLimit_def inputSchema_limit_def executeSQLQuery_def
      executeSQLQuery_execute_calls limitedQuery_def)

theorem effective_limit_witness:
  "(0::int) \<le> 700 \<and>
   startsWith (normalizedQuery ''select name from contacts'') ''select'' \<and>
   \<not> includesString (normalizedQuery ''select name from contacts'') ''limit'' \<and>
   safeLimit (inputSchema_limit (Some 700)) = 500 \<and>
   exec_calls (executeSQLQuery (\<lambda>text. Inr [Str text]) ''select name from contacts'' (Some 700)) =
     [''select name from contacts LIMIT 500''] \<and>
   safeLimit (inputSchema_limit (Some 0)) = 100 \<and>
   exec_calls (executeSQLQuery (\<lambda>text. Inr [Str text]) ''select name from contacts'' (Some 0)) =
     [''select name from contacts LIMIT 100'']"
proof -
  have a: "startsWith (normalizedQuery ''select name from contacts'') ''select''"
    by code_simp
  have b: "\<not> includesString (normalizedQuery ''select name from contacts'') ''limit''"
    by code_simp
  have n: "number_toString 500 = ''500''"
    by code_simp
  from a b n effective_limit [of 700 "''select name from contacts''" "\<lambda>text. Inr [Str text]"]
  have large: "safeLimit (inputSchema_limit (Some 700)) = 500 \<and>
    exec_calls (executeSQLQuery (\<lambda>text. Inr [Str text]) ''select name from contacts'' (Some 700)) =
      [''select name from contacts LIMIT 500'']"
    by simp
  from a b effective_limit [of 0 "''select name from contacts''" "\<lambda>text. Inr [Str text]"]
  have zero: "safeLimit (inputSchema_limit (Some 0)) = 100 \<and>
    exec_calls (executeSQLQuery (\<lambda>text. Inr [Str text]) ''select name from contacts'' (Some 0)) =
      [''select name from contacts LIMIT 100'']"
    by (simp add: number_toString_100)
  from a b large zero show ?thesis by simp
qed

text \<open>
  C2 as the specification words it fails at the limit 0: \<open>limit || 100\<close> replaces it by
  100, which is not \<open>min 0 500\<close>, and the text executed ends in \<open>LIMIT 100\<close>.
\<close>

theorem effective_limit_counterexample:
  "safeLimit (inputSchema_limit (Some 0)) \<noteq> min 0 500 \<and>
   exec_calls (executeSQLQuery (\<lambda>text. Inr []) ''select name from contacts'' (Some 0)) =
     [''select name from contacts LIMIT 100'']"
proof -
  have "safeLimit (inputSchema_limit (Some 0)) \<noteq> min 0 500"
    by (simp add: safeLimit_def inputSchema_limit_def)
  moreover have "exec_calls (executeSQLQuery (\<lambda>text. Inr []) ''select name from contacts'' (Some 0)) =
     [''select name from contacts LIMIT 100'']"
    by code_simp
  ultimately show ?thesis by simp
qed

text \<open>
  Below 0 the code does not bound the limit: for the limit -1 the text executed ends in
  \<open>LIMIT -1\<close>, which SQLite reads as no limit at all, although the source announces
  \<^verbatim>\<open>Safety check: prevent unlimited queries\<close> and a maximum of 500.
\<close>

lemma negative_limit_is_executed:
  "exec_calls (executeSQLQuery (\<lambda>text. Inr []) ''select name from contacts'' (Some (- 1))) =
     [''select name from contacts LIMIT -1'']"
  by code_simp

text \<open>
  C3. When the normalized text of an accepted query contains \<open>limit\<close> anywhere, with
  any text before and after it, the limit step leaves the query text as it was given and
  the storage capability is called once, with exactly that text: nothing is appended and
  no number in the text is looked at.
\<close>

theorem limit_substring_passes_unmodified:
  "startsWith (normalizedQuery query) ''select'' \<Longrightarrow>
   normalizedQuery query = before @ ''limit'' @ after \<Longrightarrow>
   limitedQuery query (inputSchema_limit limit) = query \<and>
   exec_calls (executeSQLQuery storage query limit) = [query]"
proof -
  assume accepted: "startsWith (normalizedQuery query) ''select''"
    and "normalizedQuery query = before @ ''limit'' @ after"
  then have "includesString (normalizedQuery query) ''limit''"
    unfolding includesString_iff by blast
  with accepted show ?thesis
    by (simp add: executeSQLQuery_def executeSQLQuery_execute_calls limitedQuery_def)
qed

theorem limit_substring_passes_unmodified_witness:
  "startsWith (normalizedQuery ''SELECT limited FROM contacts'') ''select'' \<and>
   normalizedQuery ''SELECT limited FROM contacts'' = ''select '' @ ''limit'' @ ''ed from contacts'' \<and>
   limitedQuery ''SELECT limited FROM contacts'' (inputSchema_limit (Some 5)) =
     ''SELECT limited FROM contacts'' \<and>
   exec_calls (executeSQLQuery (\<lambda>text. Inr [Str text]) ''SELECT limited FROM contacts'' (Some 5)) =
     [''SELECT limited FROM contacts'']"
proof -
  have a: "startsWith (normalizedQuery ''SELECT limited FROM contacts'') ''select''"
    by code_simp
  have b: "normalizedQuery ''SELECT limited FROM contacts'' = ''select '' @ ''limit'' @ ''ed from contacts''"
    by code_simp
  from a b limit_substring_passes_unmodified [OF a b, of "Some 5" "\<lambda>text. Inr [Str text]"]
  show ?thesis by simp
qed

text \<open>
  C4. When no limit is given and the normalized text of an accepted query has no
  \<open>limit\<close> in it, the text executed is the query text followed by \<open> LIMIT 100\<close>.
\<close>

theorem default_limit_appended:
  "startsWith (normalizedQuery query) ''select'' \<Longrightarrow>
   \<not> includesString (normalizedQuery query) ''limit'' \<Longrightarrow>
   exec_calls (executeSQLQuery storage query None) = [query @ '' LIMIT 100'']"
  by (simp add: executeSQLQuery_def executeSQLQuery_execute_calls limitedQuery_def
      safeLimit_default number_toString_100)

theorem default_limit_appended_witness:
  "startsWith (normalizedQuery ''SELECT * FROM contacts'') ''select'' \<and>
   \<not> includesString (normalizedQuery ''SELECT * FROM contacts'') ''limit'' \<and>
   exec_calls (executeSQLQuery (\<lambda>text. Inr [Str text]) ''SELECT * FROM contacts'' None) =
     [''SELECT * FROM contacts LIMIT 100'']"
proof -
  have a: "startsWith (normalizedQuery ''SELECT * FROM contacts'') ''select''"
    by code_simp
  have b: "\<not> includesString (normalizedQuery ''SELECT * FROM contacts'') ''limit''"
    by code_simp
  from a b default_limit_appended [OF a b, of "\<lambda>text. Inr [Str text]"]
  show ?thesis by simp
qed

text \<open>
  C5, as the code has it. executeSQLQuery always returns: no thrown value leaves it.
  When the storage capability throws on the text of an accepted query, the result is
  the string \<open>SQL Error: \<close> followed by the message of what was thrown when that is an
  Error, and by \<open>Unknown error\<close> when it is any other value.
\<close>

theorem exec_failure_is_caught:
  "(\<exists>r. completion (executeSQLQuery storage query limit) = Inr r) \<and>
   (startsWith (normalizedQuery query) ''select'' \<longrightarrow>
    storage (limitedQuery query (inputSchema_limit limit)) = Inl error \<longrightarrow>
    completion (executeSQLQuery storage query limit) =
      Inr (Text (''SQL Error: '' @
        (case error of Error_instance message \<Rightarrow> message | Non_Error v \<Rightarrow> ''Unknown error''))))"
  by (simp add: executeSQLQuery_def executeSQLQuery_execute_returns
      executeSQLQuery_execute_accepted error_message_def)

theorem exec_failure_is_caught_witness:
  "startsWith (normalizedQuery ''select * from nowhere'') ''select'' \<and>
   (\<lambda>text. Inl (Error_instance ''no such table: nowhere'') :: thrown + js_value list)
     (limitedQuery ''select * from nowhere'' (inputSchema_limit None)) =
     Inl (Error_instance ''no such table: nowhere'') \<and>
   completion (executeSQLQuery
     (\<lambda>text. Inl (Error_instance ''no such table: nowhere'') :: thrown + js_value list)
     ''select * from nowhere'' None) =
     Inr (Text ''SQL Error: no such table: nowhere'')"
proof -
  have a: "startsWith (normalizedQuery ''select * from nowhere'') ''select''"
    by code_simp
  from a exec_failure_is_caught
      [of "\<lambda>text. Inl (Error_instance ''no such table: nowhere'') :: thrown + js_value list"
      "''select * from nowhere''" None "Error_instance ''no such table: nowhere''"]
  show ?thesis by simp
qed

text \<open>
  C5 as the specification words it fails when what the storage capability throws is not
  an Error: for the thrown string \<open>storage unavailable\<close> the result is
  \<open>SQL Error: Unknown error\<close>, in which the text that was thrown does not occur.
\<close>

theorem exec_failure_is_caught_counterexample:
  "completion (executeSQLQuery
     (\<lambda>text. Inl (Non_Error (Str ''storage unavailable'')))
     ''select * from contacts'' None) =
     Inr (Text ''SQL Error: Unknown error'') \<and>
   \<not> includesString ''SQL Error: Unknown error'' ''storage unavailable''"
  by code_simp

text \<open>
  C6. When the storage capability returns no rows for an accepted query, executeSQLQuery
  returns (it does not fail with an error string) the stringified object with
  \<open>rowCount\<close> 0, an empty \<open>rows\<close> array, the text that was executed as \<open>query\<close>, and
  a \<open>message\<close>.
\<close>

theorem empty_result_is_success:
  "startsWith (normalizedQuery query) ''select'' \<Longrightarrow>
   storage (limitedQuery query (inputSchema_limit limit)) = Inr [] \<Longrightarrow>
   executeSQLQuery storage query limit =
     \<lparr>completion = Inr (Stringified
        [(''rowCount'', Number 0),
         (''rows'', Array []),
         (''query'', String (limitedQuery query (inputSchema_limit limit))),
         (''message'', String ''Query executed successfully. No results returned.'')]),
      exec_calls = [limitedQuery query (inputSchema_limit limit)]\<rparr>"
  by (simp add: executeSQLQuery_def executeSQLQuery_execute_accepted)

theorem empty_result_is_success_witness:
  "startsWith (normalizedQuery ''select * from contacts'') ''select'' \<and>
   (\<lambda>text. Inr [] :: thrown + js_value list)
     (limitedQuery ''select * from contacts'' (inputSchema_limit None)) = Inr [] \<and>
   executeSQLQuery (\<lambda>text. Inr [] :: thrown + js_value list) ''select * from contacts'' None =
     \<lparr>completion = Inr (Stringified
        [(''rowCount'', Number 0),
         (''rows'', Array []),
         (''query'', String ''select * from contacts LIMIT 100''),
         (''message'', String ''Query executed successfully. No results returned.'')]),
      exec_calls = [''select * from contacts LIMIT 100'']\<rparr>"
proof -
  have a: "startsWith (normalizedQuery ''select * from contacts'') ''select''"
    by code_simp
  have q: "limitedQuery ''select * from contacts'' (inputSchema_limit None) =
           ''select * from contacts LIMIT 100''"
    by code_simp
  from a q empty_result_is_success
      [of "''select * from contacts''" "\<lambda>text. Inr [] :: thrown + js_value list" None]
  show ?thesis by simp
qed




text \<open>
  C8. The trimmed, lowercased text is only inspected. For an accepted query the storage
  capability is called once, and the text it receives is the query text as given, with
  its casing and its surrounding white space, either alone or followed by \<open> LIMIT \<close> and
  the effective limit.
\<close>

theorem executed_text_keeps_original:
  "startsWith (normalizedQuery query) ''select'' \<Longrightarrow>
   exec_calls (executeSQLQuery storage query limit) \<in>
     {[query], [query @ '' LIMIT '' @ number_toString (safeLimit (inputSchema_limit limit))]}"
  by (simp add: executeSQLQuery_def executeSQLQuery_execute_calls limitedQuery_def)

theorem executed_text_keeps_original_witness:
  "startsWith (normalizedQuery ''  SeLeCt Name FROM Contacts  '') ''select'' \<and>
   exec_calls (executeSQLQuery (\<lambda>text. Inr [Str text]) ''  SeLeCt Name FROM Contacts  '' (Some 7)) =
     [''  SeLeCt Name FROM Contacts   LIMIT 7'']"
proof -
  have a: "startsWith (normalizedQuery ''  SeLeCt Name FROM Contacts  '') ''select''"
    by code_simp
  have n: "number_toString (safeLimit (inputSchema_limit (Some 7))) = ''7''"
    by code_simp
  have "exec_calls (executeSQLQuery (\<lambda>text. Inr [Str text]) ''  SeLeCt Name FROM Contacts  '' (Some 7)) \<noteq>
        [''  SeLeCt Name FROM Contacts  '']"
    by code_simp
  with n executed_text_keeps_original [OF a, of "\<lambda>text. Inr [Str text]" "Some 7"] a
  show ?thesis by simp
qed

text \<open>
  C10. The check looks at the first six characters only: a text that begins with the
  word \<open>selections\<close> is accepted and handed to the storage capability.
\<close>

theorem prefix_check_accepts_longer_word:
  "startsWith (normalizedQuery ''selections are closed'') ''select'' \<and>
   exec_calls (executeSQLQuery storage ''selections are closed'' None) =
     [''selections are closed LIMIT 100'']"
proof -
  have a: "startsWith (normalizedQuery ''selections are closed'') ''select''"
    by code_simp
  have b: "\<not> includesString (normalizedQuery ''selections are closed'') ''limit''"
    by code_simp
  show ?thesis
    using a b by (simp add: executeSQLQuery_def executeSQLQuery_execute_calls limitedQuery_def
      safeLimit_default number_toString_100)
qed

section \<open>Claims about getDatabaseSchema\<close>

lemma getDatabaseSchema_eq:
  "getDatabaseSchema storage =
     (case storage schema_query of
        Inl error \<Rightarrow>
          \<lparr>completion = Inr (Text (''Error getting schema: '' @ error_message error)),
           exec_calls = [schema_query]\<rparr>
      | Inr tables \<Rightarrow>
          \<lparr>completion = Inr (if tables = []
             then Text ''No tables found in database.''
             else Stringified
                    [(''database'', String ''SQLite (Cloudflare Durable Object)''),
                     (''tableCount'', Number (length tables)),
                     (''tables'', Array (map (\<lambda>table. \<lparr>table = table ''name'', createStatement = table ''sql''\<rparr>) tables))]),
           exec_calls = [schema_query]\<rparr>)"
  by (simp add: getDatabaseSchema_def getDatabaseSchema_try_def getDatabaseSchema_catch_def
      try_catch_def bind_run_def exec_toArray_def return_run_def split: sum.splits)

lemma contacts_row_properties:
  "contacts_row ''name'' = Some ''contacts''"
  "contacts_row ''sql'' = Some ''CREATE TABLE contacts (id INTEGER)''"
  by (simp_all add: contacts_row_def)

lemma notes_row_properties:
  "notes_row ''name'' = Some ''notes''"
  "notes_row ''sql'' = Some ''CREATE TABLE notes (body TEXT)''"
  by (simp_all add: notes_row_def)

text \<open>
  C9, as the code has it. getDatabaseSchema calls the storage capability once, with the
  fixed query. When at least one row comes back, the result is the stringified object
  whose \<open>tableCount\<close> is the number of rows and whose \<open>tables\<close> holds, for each row
  in the order returned, its \<open>name\<close> as \<open>table\<close> and its \<open>sql\<close> as
  \<open>createStatement\<close>; when no row comes back, the result is the plain string
  \<open>No tables found in database.\<close>. Two runs for which the capability answers the fixed
  query alike give the same result.
\<close>

theorem schema_introspection:
  "exec_calls (getDatabaseSchema storage) =
     [''SELECT name, sql FROM sqlite_master WHERE type='table' ORDER BY name''] \<and>
   (storage schema_query = Inr tables \<longrightarrow> tables \<noteq> [] \<longrightarrow>
    completion (getDatabaseSchema storage) = Inr (Stringified
      [(''database'', String ''SQLite (Cloudflare Durable Object)''),
       (''tableCount'', Number (length tables)),
       (''tables'', Array (map (\<lambda>row. \<lparr>table = row ''name'', createStatement = row ''sql''\<rparr>) tables))])) \<and>
   (storage schema_query = Inr [] \<longrightarrow>
    completion (getDatabaseSchema storage) = Inr (Text ''No tables found in database.'')) \<and>
   (storage' schema_query = storage schema_query \<longrightarrow>
    getDatabaseSchema storage' = getDatabaseSchema storage)"
proof -
  have "exec_calls (getDatabaseSchema storage) = [schema_query]"
    by (simp add: getDatabaseSchema_eq split: sum.splits)
  then show ?thesis
    by (simp add: getDatabaseSchema_eq schema_query_def)
qed


theorem schema_introspection_witness:
  "(\<lambda>text. Inr [contacts_row, notes_row] :: thrown + (string row) list) schema_query =
     Inr [contacts_row, notes_row] \<and>
   [contacts_row, notes_row] \<noteq> [] \<and>
   (\<lambda>text. Inr [] :: thrown + (string row) list) schema_query = Inr [] \<and>
   (\<lambda>text. if text = schema_query then Inr [] else Inl (Non_Error Null) :: thrown + (string row) list)
     schema_query = (\<lambda>text. Inr []) schema_query \<and>
   completion (getDatabaseSchema (\<lambda>text. Inr [contacts_row, notes_row])) =
     Inr (Stringified
       [(''database'', String ''SQLite (Cloudflare Durable Object)''),
        (''tableCount'', Number 2),
        (''tables'', Array
           [\<lparr>table = Some ''contacts'', createStatement = Some ''CREATE TABLE contacts (id INTEGER)''\<rparr>,
            \<lparr>table = Some ''notes'', createStatement = Some ''CREATE TABLE notes (body TEXT)''\<rparr>])]) \<and>
   completion (getDatabaseSchema (\<lambda>text. Inr [] :: thrown + (string row) list)) =
     Inr (Text ''No tables found in database.'') \<and>
   getDatabaseSchema (\<lambda>text. if text = schema_query then Inr [] else Inl (Non_Error Null)) =
     getDatabaseSchema (\<lambda>text. Inr [] :: thrown + (string row) list)"
proof -
  let ?none = "\<lambda>text. Inr [] :: thrown + (string row) list"
  from schema_introspection
    [of "\<lambda>text. Inr [contacts_row, notes_row]" "[contacts_row, notes_row]"
        "\<lambda>text. Inr [contacts_row, notes_row]"]
  have one: "completion (getDatabaseSchema (\<lambda>text. Inr [contacts_row, notes_row])) =
     Inr (Stringified
       [(''database'', String ''SQLite (Cloudflare Durable Object)''),
        (''tableCount'', Number 2),
        (''tables'', Array
           [\<lparr>table = Some ''contacts'', createStatement = Some ''CREATE TABLE contacts (id INTEGER)''\<rparr>,
            \<lparr>table = Some ''notes'', createStatement = Some ''CREATE TABLE notes (body TEXT)''\<rparr>])])"
    by (simp add: contacts_row_properties notes_row_properties)
  from schema_introspection
    [of ?none "[]" "\<lambda>text. if text = schema_query then Inr [] else Inl (Non_Error Null)"]
  have two: "completion (getDatabaseSchema ?none) = Inr (Text ''No tables found in database.'')"
    and three: "getDatabaseSchema (\<lambda>text. if text = schema_query then Inr [] else Inl (Non_Error Null)) =
      getDatabaseSchema ?none"
    by simp_all
  from one two three show ?thesis by simp
qed

text \<open>
  C9 as the specification words it fails when the fixed query returns no row:
  the result is then a plain string, not an object that reports a \<open>tableCount\<close> of 0.
\<close>

theorem schema_introspection_counterexample:
  "completion (getDatabaseSchema (\<lambda>text. Inr [] :: thrown + (string row) list)) =
     Inr (Text ''No tables found in database.'') \<and>
   completion (getDatabaseSchema (\<lambda>text. Inr [] :: thrown + (string row) list)) \<noteq>
     Inr (Stringified
       [(''database'', String ''SQLite (Cloudflare Durable Object)''),
        (''tableCount'', Number 0),
        (''tables'', Array [])])"
  by (simp add: getDatabaseSchema_eq)

end
